theory Spec2Isabelle
  imports Complex_Main "HOL-Library.AList"
begin

section \<open>Values, nodes, edges and the property graph\<close>

text \<open>
  The program of \<^verbatim>\<open>create_neo4j.py\<close> is a layer of Python functions over a property graph
  held by a graph engine. The graph is the state of the model: every function takes the
  graph and returns the graph it leaves behind together with its Python result.

  Python floats and integers that are stored as properties are modelled as real numbers
  (rounding is not modelled); internal node identifiers are natural numbers.
\<close>

datatype val =
    Null
  | Str string
  | Num real
  | VBool bool
  | VList "val list"
  | VMap "(string \<times> val) list"

type_synonym pdict = "(string \<times> val) list"

record node =
  nid :: nat
  label :: string
  props :: pdict

record edge =
  src :: nat
  rel_type :: string
  dst :: nat
  rel_props :: pdict

record graph =
  nodes :: "node list"
  edges :: "edge list"

definition empty_graph :: graph where
  "empty_graph = \<lparr>nodes = [], edges = []\<rparr>"

text \<open>Reading a property that is not stored gives null, as \<^verbatim>\<open>n.key\<close> does in a query.\<close>

definition node_prop :: "node \<Rightarrow> string \<Rightarrow> val" where
  "node_prop n k = (case map_of (props n) k of None \<Rightarrow> Null | Some v \<Rightarrow> v)"

text \<open>Python's \<^verbatim>\<open>dict.update\<close>: later entries replace earlier ones, new keys go last.\<close>

definition dict_update :: "pdict \<Rightarrow> pdict \<Rightarrow> pdict" where
  "dict_update d kvs = fold (\<lambda>(k, v). AList.update k v) kvs d"

section \<open>The graph engine and its driver\<close>

text \<open>
  The engine is the external collaborator; it is modelled by what its statements mean on
  the graph. A created node gets an identifier no node of the graph has; a property bound
  to null is not stored. Rows come back in the order of the node and edge lists, and the
  groups of an aggregation in the order in which their keys first occur.

  The engine and its driver refuse some of what the program sends them, and the refusal
  reaches the caller as an exception:
  \<^item> a statement whose text the grammar does not allow is rejected before the graph is
    read (\<open>CypherSyntaxError\<close>);
  \<^item> a property value that is a map cannot be stored (\<open>CypherTypeError\<close>); a list can be
    stored when its elements are strings, numbers or booleans of one kind;
  \<^item> the driver encodes an integer parameter in 64 bits and raises \<open>OverflowError\<close> for
    one outside that range, before anything is sent;
  \<^item> \<open>PyTypeError\<close> is Python's own \<^verbatim>\<open>TypeError\<close>.
  A statement that is refused changes nothing; what earlier statements of the same call
  wrote stays written.
\<close>

datatype error = CypherSyntaxError | CypherTypeError | PyTypeError | OverflowError

definition fresh_id :: "graph \<Rightarrow> nat" where
  "fresh_id g = fold (\<lambda>n a. max (Suc (nid n)) a) (nodes g) 0"

definition stored :: "pdict \<Rightarrow> pdict" where
  "stored ps = filter (\<lambda>(k, v). v \<noteq> Null) ps"

fun element_kind :: "val \<Rightarrow> nat option" where
  "element_kind (Str s) = Some 0"
| "element_kind (Num x) = Some 1"
| "element_kind (VBool b) = Some 2"
| "element_kind v = None"

fun storable :: "val \<Rightarrow> bool" where
  "storable (VMap kvs) = False"
| "storable (VList []) = True"
| "storable (VList (x # xs)) =
     (element_kind x \<noteq> None \<and> list_all (\<lambda>y. element_kind y = element_kind x) xs)"
| "storable v = True"

definition all_storable :: "pdict \<Rightarrow> bool" where
  "all_storable ps = list_all (\<lambda>(k, v). storable v) ps"

text \<open>
  \<^verbatim>\<open>CREATE (n:label {props}) RETURN id(n) AS node_id\<close>: one node and one row, unless a
  property cannot be stored.
\<close>

definition cy_create_node :: "graph \<Rightarrow> string \<Rightarrow> pdict \<Rightarrow> graph \<times> (error + nat list)" where
  "cy_create_node g l ps =
     (if all_storable ps
      then (let i = fresh_id g
            in (g\<lparr>nodes := nodes g @ [\<lparr>nid = i, label = l, props = stored ps\<rparr>]\<rparr>, Inr [i]))
      else (g, Inl CypherTypeError))"

text \<open>\<^verbatim>\<open>MATCH (n:label {key: $v})\<close> with a string bound to the parameter.\<close>

definition match_by :: "graph \<Rightarrow> string \<Rightarrow> string \<Rightarrow> string \<Rightarrow> node list" where
  "match_by g l k v = filter (\<lambda>n. label n = l \<and> node_prop n k = Str v) (nodes g)"

text \<open>\<^verbatim>\<open>MATCH (n:label WHERE id(n) = $i)\<close>; a null parameter matches nothing.\<close>

definition match_id :: "graph \<Rightarrow> string \<Rightarrow> nat option \<Rightarrow> node list" where
  "match_id g l i = filter (\<lambda>n. label n = l \<and> Some (nid n) = i) (nodes g)"

text \<open>
  \<^verbatim>\<open>CREATE (a)-[r:T {props}]->(b) RETURN r\<close> after two \<^verbatim>\<open>MATCH\<close> clauses: one edge and one
  row for every combination of a matched \<open>a\<close> and a matched \<open>b\<close>. Without a combination
  nothing is created and nothing is checked.
\<close>

definition new_edges :: "node list \<Rightarrow> node list \<Rightarrow> string \<Rightarrow> pdict \<Rightarrow> edge list" where
  "new_edges as bs t ps =
     concat (map (\<lambda>a. map (\<lambda>b. \<lparr>src = nid a, rel_type = t, dst = nid b,
                                 rel_props = stored ps\<rparr>) bs) as)"

definition cy_create_edges ::
  "graph \<Rightarrow> node list \<Rightarrow> node list \<Rightarrow> string \<Rightarrow> pdict \<Rightarrow> graph \<times> (error + edge list)" where
  "cy_create_edges g as bs t ps =
     (let es = new_edges as bs t ps
      in if es = [] then (g, Inr [])
         else if all_storable ps then (g\<lparr>edges := edges g @ es\<rparr>, Inr es)
         else (g, Inl CypherTypeError))"


section \<open>The domain records\<close>

record PhysicalProperties =
  mass :: real
  volume :: real
  cg_offset :: "real \<times> real \<times> real"
  material :: string
  surface_treatment :: "string option"

record MechanicalInterface =
  connector_class :: string
  static_force_limits :: "(string \<times> real) list"
  static_moment_limits :: "(string \<times> real) list"
  dynamic_acceleration_g :: real
  shock_g :: real
  deflection_limit_mm :: real
  mounting_stiffness_min :: real
  natural_freq_min :: real
  allowed_rotation_deg :: real

record ElectricalInterface =
  power_rail :: string
  max_current_a :: real
  power_draw_w :: real
  data_protocol :: string
  telemetry_rate_hz :: real
  latency_requirement_ms :: real

record ThermalInterface =
  max_heat_dissipation_w :: real
  operating_temp_min_c :: real
  operating_temp_max_c :: real
  thermal_resistance_k_per_w :: real

definition float_dict :: "(string \<times> real) list \<Rightarrow> val" where
  "float_dict d = VMap (map (\<lambda>(k, x). (k, Num x)) d)"

text \<open>\<^verbatim>\<open>dataclasses.asdict\<close>, field by field in declaration order.\<close>

definition asdict_mechanical :: "MechanicalInterface \<Rightarrow> pdict" where
  "asdict_mechanical m =
     [(''connector_class'', Str (connector_class m)),
      (''static_force_limits'', float_dict (static_force_limits m)),
      (''static_moment_limits'', float_dict (static_moment_limits m)),
      (''dynamic_acceleration_g'', Num (dynamic_acceleration_g m)),
      (''shock_g'', Num (shock_g m)),
      (''deflection_limit_mm'', Num (deflection_limit_mm m)),
      (''mounting_stiffness_min'', Num (mounting_stiffness_min m)),
      (''natural_freq_min'', Num (natural_freq_min m)),
      (''allowed_rotation_deg'', Num (allowed_rotation_deg m))]"

definition asdict_electrical :: "ElectricalInterface \<Rightarrow> pdict" where
  "asdict_electrical e =
     [(''power_rail'', Str (power_rail e)),
      (''max_current_a'', Num (max_current_a e)),
      (''power_draw_w'', Num (power_draw_w e)),
      (''data_protocol'', Str (data_protocol e)),
      (''telemetry_rate_hz'', Num (telemetry_rate_hz e)),
      (''latency_requirement_ms'', Num (latency_requirement_ms e))]"

definition asdict_thermal :: "ThermalInterface \<Rightarrow> pdict" where
  "asdict_thermal t =
     [(''max_heat_dissipation_w'', Num (max_heat_dissipation_w t)),
      (''operating_temp_min_c'', Num (operating_temp_min_c t)),
      (''operating_temp_max_c'', Num (operating_temp_max_c t)),
      (''thermal_resistance_k_per_w'', Num (thermal_resistance_k_per_w t))]"

text \<open>The dict comprehension \<^verbatim>\<open>{f"pre_{k}": v for k, v in d.items()}\<close>.\<close>

definition prefixed :: "string \<Rightarrow> pdict \<Rightarrow> pdict" where
  "prefixed pre d = map (\<lambda>(k, v). (pre @ k, v)) d"

section \<open>Node creation\<close>

text \<open>
  Every operation that writes returns the graph it leaves behind and, beside it, either
  the exception it raised or its Python result.

  \<^verbatim>\<open>_create_node\<close>: every property is bound as a statement parameter, the node is created,
  and the identifier of the first row is returned (\<open>None\<close> when there is no row).
  The log lines the functions print are not part of the model.
\<close>

definition create_node :: "graph \<Rightarrow> string \<Rightarrow> pdict \<Rightarrow> graph \<times> (error + nat option)" where
  "create_node g l properties =
     (let (g', res) = cy_create_node g l properties
      in (g', case res of
                Inl e \<Rightarrow> Inl e
              | Inr result \<Rightarrow> Inr (case result of [] \<Rightarrow> None | r # _ \<Rightarrow> Some r)))"

text \<open>
  \<^verbatim>\<open>_create_relationship\<close>: both ends are matched by label and internal identifier;
  the result is whether the statement returned a row.
\<close>

definition create_relationship ::
  "graph \<Rightarrow> string \<Rightarrow> nat option \<Rightarrow> string \<Rightarrow> string \<Rightarrow> nat option \<Rightarrow> pdict option
     \<Rightarrow> graph \<times> (error + bool)" where
  "create_relationship g from_label from_id rt to_label to_id rel_ps =
     (let ps = (case rel_ps of None \<Rightarrow> [] | Some d \<Rightarrow> d);
          (g', res) = cy_create_edges g (match_id g from_label from_id)
                        (match_id g to_label to_id) rt ps
      in (g', case res of Inl e \<Rightarrow> Inl e | Inr result \<Rightarrow> Inr (length result > 0)))"

definition interface_props ::
  "string \<Rightarrow> string \<Rightarrow> MechanicalInterface option \<Rightarrow> ElectricalInterface option
     \<Rightarrow> ThermalInterface option \<Rightarrow> pdict" where
  "interface_props interface_id interface_type mechanical electrical thermal =
     (let ps0 = [(''interface_id'', Str interface_id),
                 (''interface_type'', Str interface_type),
                 (''created_timestamp'', Str ''datetime()'')];
          ps1 = (case mechanical of None \<Rightarrow> ps0
                 | Some m \<Rightarrow> dict_update ps0 (prefixed ''mech_'' (asdict_mechanical m)));
          ps2 = (case electrical of None \<Rightarrow> ps1
                 | Some e \<Rightarrow> dict_update ps1 (prefixed ''elec_'' (asdict_electrical e)));
          ps3 = (case thermal of None \<Rightarrow> ps2
                 | Some t \<Rightarrow> dict_update ps2 (prefixed ''therm_'' (asdict_thermal t)))
      in ps3)"

definition create_interface_spec ::
  "graph \<Rightarrow> string \<Rightarrow> string \<Rightarrow> MechanicalInterface option \<Rightarrow> ElectricalInterface option
     \<Rightarrow> ThermalInterface option \<Rightarrow> graph \<times> (error + nat option)" where
  "create_interface_spec g interface_id interface_type mechanical electrical thermal =
     create_node g ''Interface_Spec''
       (interface_props interface_id interface_type mechanical electrical thermal)"

text \<open>\<^verbatim>\<open>physical.surface_treatment or "standard"\<close>: \<open>None\<close> and the empty string are falsy.\<close>

definition or_standard :: "string option \<Rightarrow> string" where
  "or_standard s = (case s of None \<Rightarrow> ''standard''
                    | Some t \<Rightarrow> if t = [] then ''standard'' else t)"

definition module_props ::
  "string \<Rightarrow> string \<Rightarrow> PhysicalProperties \<Rightarrow> ElectricalInterface option \<Rightarrow> string \<Rightarrow> pdict" where
  "module_props module_id module_type physical electrical_iface description =
     (let ps = [(''module_id'', Str module_id),
                (''module_type'', Str module_type),
                (''mass_kg'', Num (mass physical)),
                (''volume_m3'', Num (volume physical)),
                (''cg_offset_x'', Num (fst (cg_offset physical))),
                (''cg_offset_y'', Num (fst (snd (cg_offset physical)))),
                (''cg_offset_z'', Num (snd (snd (cg_offset physical)))),
                (''material'', Str (material physical)),
                (''surface_treatment'', Str (or_standard (surface_treatment physical))),
                (''status'', Str ''active''),
                (''description'', Str description)]
      in case electrical_iface of None \<Rightarrow> ps
         | Some e \<Rightarrow> AList.update ''power_rail'' (Str (power_rail e))
                      (AList.update ''power_draw_w'' (Num (power_draw_w e)) ps))"

text \<open>
  One interface sub-step of \<^verbatim>\<open>create_module\<close>: the interface node, then its edge. An
  exception of the first statement leaves the second unexecuted.
\<close>

definition attach_interface ::
  "graph \<Rightarrow> nat option \<Rightarrow> string \<Rightarrow> string \<Rightarrow> MechanicalInterface option
     \<Rightarrow> ElectricalInterface option \<Rightarrow> ThermalInterface option \<Rightarrow> graph \<times> (error + unit)" where
  "attach_interface g node_id module_id kind mechanical electrical thermal =
     (let (g1, r1) = create_interface_spec g (module_id @ ''_'' @ kind) kind
                       mechanical electrical thermal
      in case r1 of
           Inl e \<Rightarrow> (g1, Inl e)
         | Inr iface_id \<Rightarrow>
             (let (g2, r2) = create_relationship g1 ''UGV_Module'' node_id ''HAS_INTERFACE''
                               ''Interface_Spec'' iface_id None
              in (g2, case r2 of Inl e \<Rightarrow> Inl e | Inr b \<Rightarrow> Inr ())))"

text \<open>
  \<^verbatim>\<open>create_module\<close>: the module node, then the three optional interface sub-steps in
  the order of the source; the first exception ends the call.
\<close>

definition create_module ::
  "graph \<Rightarrow> string \<Rightarrow> string \<Rightarrow> PhysicalProperties \<Rightarrow> MechanicalInterface option
     \<Rightarrow> ElectricalInterface option \<Rightarrow> ThermalInterface option \<Rightarrow> string
     \<Rightarrow> graph \<times> (error + nat option)" where
  "create_module g module_id module_type physical mechanical_iface electrical_iface
       thermal_iface description =
     (let (g0, r0) = create_node g ''UGV_Module''
                       (module_props module_id module_type physical electrical_iface
                          description)
      in case r0 of
           Inl e \<Rightarrow> (g0, Inl e)
         | Inr node_id \<Rightarrow>
             (let (g1, r1) = (case mechanical_iface of
                                None \<Rightarrow> (g0, Inr ())
                              | Some m \<Rightarrow> attach_interface g0 node_id module_id ''mechanical''
                                           (Some m) None None)
              in case r1 of
                   Inl e \<Rightarrow> (g1, Inl e)
                 | Inr u1 \<Rightarrow>
                     (let (g2, r2) = (case electrical_iface of
                                        None \<Rightarrow> (g1, Inr ())
                                      | Some e \<Rightarrow> attach_interface g1 node_id module_id
                                                   ''electrical'' None (Some e) None)
                      in case r2 of
                           Inl e \<Rightarrow> (g2, Inl e)
                         | Inr u2 \<Rightarrow>
                             (let (g3, r3) = (case thermal_iface of
                                                None \<Rightarrow> (g2, Inr ())
                                              | Some t \<Rightarrow> attach_interface g2 node_id module_id
                                                           ''thermal'' None None (Some t))
                              in case r3 of
                                   Inl e \<Rightarrow> (g3, Inl e)
                                 | Inr u3 \<Rightarrow> (g3, Inr node_id)))))"


definition create_mission_profile ::
  "graph \<Rightarrow> string \<Rightarrow> string \<Rightarrow> string \<Rightarrow> real \<Rightarrow> string \<Rightarrow> graph \<times> (error + nat option)" where
  "create_mission_profile g mission_id mission_name mission_type duration_hours description =
     create_node g ''Mission_Profile''
       [(''mission_id'', Str mission_id),
        (''mission_name'', Str mission_name),
        (''mission_type'', Str mission_type),
        (''duration_hours'', Num duration_hours),
        (''description'', Str description),
        (''validation_status'', Str ''unvalidated'')]"


section \<open>Relationship management\<close>


definition add_module_to_mission :: "graph \<Rightarrow> string \<Rightarrow> string \<Rightarrow> graph \<times> (error + bool)" where
  "add_module_to_mission g module_id mission_id =
     (let (g', res) = cy_create_edges g
                           (match_by g ''UGV_Module'' ''module_id'' module_id)
                           (match_by g ''Mission_Profile'' ''mission_id'' mission_id)
                           ''PART_OF_MISSION'' []
      in (g', case res of Inl e \<Rightarrow> Inl e | Inr result \<Rightarrow> Inr (length result > 0)))"


definition mark_compatible :: "graph \<Rightarrow> string \<Rightarrow> string \<Rightarrow> graph \<times> (error + bool)" where
  "mark_compatible g module_id_1 module_id_2 =
     (let (g', res) = cy_create_edges g
                           (match_by g ''UGV_Module'' ''module_id'' module_id_1)
                           (match_by g ''UGV_Module'' ''module_id'' module_id_2)
                           ''COMPATIBLE_WITH'' []
      in (g', case res of Inl e \<Rightarrow> Inl e | Inr result \<Rightarrow> Inr (length result > 0)))"

definition mark_conflict :: "graph \<Rightarrow> string \<Rightarrow> string \<Rightarrow> string \<Rightarrow> graph \<times> (error + bool)" where
  "mark_conflict g module_id_1 module_id_2 reason =
     (let (g', res) = cy_create_edges g
                           (match_by g ''UGV_Module'' ''module_id'' module_id_1)
                           (match_by g ''UGV_Module'' ''module_id'' module_id_2)
                           ''CONFLICTS_WITH'' [(''reason'', Str reason)]
      in (g', case res of Inl e \<Rightarrow> Inl e | Inr result \<Rightarrow> Inr (length result > 0)))"

section \<open>Query primitives\<close>

text \<open>
  \<^verbatim>\<open>MATCH (a:la)-[:t]->(b:lb {k: $v})\<close>: one row for every edge of type \<open>t\<close> whose source
  carries label \<open>la\<close> and whose target is a matching \<open>lb\<close> node.
\<close>

definition match_path ::
  "graph \<Rightarrow> string \<Rightarrow> string \<Rightarrow> string \<Rightarrow> string \<Rightarrow> string \<Rightarrow> (node \<times> node) list" where
  "match_path g la t lb k v =
     concat (map (\<lambda>e. concat (map (\<lambda>a. map (\<lambda>b. (a, b))
                                          (filter (\<lambda>n. nid n = dst e) (match_by g lb k v)))
                               (filter (\<lambda>n. label n = la \<and> nid n = src e) (nodes g))))
                 (filter (\<lambda>e. rel_type e = t) (edges g)))"

text \<open>The grouping keys of an aggregation, in the order in which they first occur.\<close>

fun first_keys :: "'a list \<Rightarrow> 'a list" where
  "first_keys [] = []"
| "first_keys (x # xs) = x # filter (\<lambda>y. y \<noteq> x) (first_keys xs)"

text \<open>\<^verbatim>\<open>sum()\<close> skips nulls, adds numbers and rejects every other value.\<close>

fun cy_sum :: "val list \<Rightarrow> error + real" where
  "cy_sum [] = Inr 0"
| "cy_sum (Null # vs) = cy_sum vs"
| "cy_sum (Num x # vs) = (case cy_sum vs of Inl e \<Rightarrow> Inl e | Inr s \<Rightarrow> Inr (x + s))"
| "cy_sum (_ # vs) = Inl CypherTypeError"

text \<open>\<^verbatim>\<open>collect()\<close> skips nulls.\<close>

definition cy_collect :: "val list \<Rightarrow> val list" where
  "cy_collect vs = filter (\<lambda>v. v \<noteq> Null) vs"

fun all_rows :: "(error + 'a) list \<Rightarrow> error + 'a list" where
  "all_rows [] = Inr []"
| "all_rows (Inl e # rs) = Inl e"
| "all_rows (Inr r # rs) = (case all_rows rs of Inl e \<Rightarrow> Inl e | Inr xs \<Rightarrow> Inr (r # xs))"

section \<open>Power-budget validation\<close>

record power_row =
  row_mission_name :: val
  row_total_power_w :: real
  row_num_modules :: nat
  row_module_ids :: "val list"

definition mission_members :: "graph \<Rightarrow> string \<Rightarrow> (node \<times> node) list" where
  "mission_members g mission_id =
     match_path g ''UGV_Module'' ''PART_OF_MISSION'' ''Mission_Profile'' ''mission_id'' mission_id"

text \<open>The modules of the matched paths, one entry for every path.\<close>

definition mission_modules :: "graph \<Rightarrow> string \<Rightarrow> node list" where
  "mission_modules g mission_id = map fst (mission_members g mission_id)"

text \<open>
  The statement of \<^verbatim>\<open>validate_mission_power_budget\<close>: the rows of the path match, grouped by
  \<^verbatim>\<open>mission.mission_name\<close>, with \<^verbatim>\<open>sum\<close>, \<^verbatim>\<open>count\<close> and \<^verbatim>\<open>collect\<close> over each group.
  No matched row means no group and so no result row.
\<close>

definition power_group :: "(node \<times> node) list \<Rightarrow> val \<Rightarrow> error + power_row" where
  "power_group rows name =
     (let grp = filter (\<lambda>(m, mission). node_prop mission ''mission_name'' = name) rows
      in case cy_sum (map (\<lambda>(m, mission). node_prop m ''power_draw_w'') grp) of
           Inl e \<Rightarrow> Inl e
         | Inr s \<Rightarrow> Inr \<lparr>row_mission_name = name, row_total_power_w = s,
                         row_num_modules = length grp,
                         row_module_ids =
                           cy_collect (map (\<lambda>(m, mission). node_prop m ''module_id'') grp)\<rparr>)"

definition power_budget_query :: "graph \<Rightarrow> string \<Rightarrow> error + power_row list" where
  "power_budget_query g mission_id =
     (let rows = mission_members g mission_id
      in all_rows (map (power_group rows)
                    (first_keys (map (\<lambda>(m, mission). node_prop mission ''mission_name'') rows))))"

record power_report =
  mission_name :: val
  total_power_w :: real
  total_power_kw :: real
  budget_kw :: real
  num_modules :: nat
  within_budget :: bool
  margin_kw :: real
  module_ids :: "val list"

datatype power_result = Status_Reason string string | Power_Report power_report

text \<open>\<^verbatim>\<open>x or 0\<close> on a number: zero is falsy and is replaced by \<open>0\<close>.\<close>

definition or_zero :: "real \<Rightarrow> real" where
  "or_zero x = (if x = 0 then 0 else x)"

definition validate_mission_power_budget :: "graph \<Rightarrow> string \<Rightarrow> real \<Rightarrow> error + power_result" where
  "validate_mission_power_budget g mission_id budget =
     (case power_budget_query g mission_id of
        Inl e \<Rightarrow> Inl e
      | Inr result \<Rightarrow>
          (case result of
             [] \<Rightarrow> Inr (Status_Reason ''invalid'' ''No modules found for mission'')
           | row # _ \<Rightarrow>
               (let kw = or_zero (row_total_power_w row) / 1000
                in Inr (Power_Report
                     \<lparr>mission_name = row_mission_name row,
                      total_power_w = or_zero (row_total_power_w row),
                      total_power_kw = kw,
                      budget_kw = budget,
                      num_modules = row_num_modules row,
                      within_budget = (kw \<le> budget),
                      margin_kw = budget - kw,
                      module_ids = row_module_ids row\<rparr>))))"

section \<open>Pairwise compatibility\<close>

record compat_row =
  module_1 :: val
  module_2 :: val
  relationship :: string
  conflict_reason :: val

text \<open>
  The statement of \<^verbatim>\<open>get_mission_compatibility\<close> reads
  \<^verbatim>\<open>... UNWIND modules AS m1 UNWIND modules AS m2 WHERE id(m1) < id(m2) OPTIONAL MATCH ...\<close>.
  A \<^verbatim>\<open>WHERE\<close> belongs to a \<^verbatim>\<open>MATCH\<close> or a \<^verbatim>\<open>WITH\<close> clause; after \<^verbatim>\<open>UNWIND\<close> the grammar
  has no place for it. The engine rejects the text of the statement, whatever the graph
  and the mission identifier are, and \<^verbatim>\<open>_execute_query\<close> raises.
\<close>

definition compatibility_statement :: "graph \<Rightarrow> string \<Rightarrow> error + compat_row list" where
  "compatibility_statement g mission_id = Inl CypherSyntaxError"

record compat_report =
  total_pairs :: nat
  conflicts :: "compat_row list"
  compatible_confirmed :: "compat_row list"
  unknown :: nat
  mission_viable :: bool

definition get_mission_compatibility :: "graph \<Rightarrow> string \<Rightarrow> error + compat_report" where
  "get_mission_compatibility g mission_id =
     (case compatibility_statement g mission_id of
        Inl e \<Rightarrow> Inl e
      | Inr result \<Rightarrow>
          (let cs = filter (\<lambda>r. relationship r = ''CONFLICT'') result;
               ok = filter (\<lambda>r. relationship r = ''COMPATIBLE'') result
           in Inr \<lparr>total_pairs = length result,
                   conflicts = cs,
                   compatible_confirmed = ok,
                   unknown = length (filter (\<lambda>r. relationship r = ''UNKNOWN'') result),
                   mission_viable = (length cs = 0)\<rparr>))"

section \<open>Mission manifest\<close>

text \<open>
  The statement of \<^verbatim>\<open>get_mission_manifest\<close> matches the mission, then optionally its
  modules, then optionally each module's constraints. An optional match that finds nothing
  keeps the row and binds null. The result is grouped by the three mission fields. The
  outer \<^verbatim>\<open>collect\<close> takes one map from every row of a group: it skips null values only,
  and a map whose entries are null is not null. The \<^verbatim>\<open>collect\<close> nested in the map is not
  evaluated as an aggregation of its own and leaves \<^verbatim>\<open>constraints\<close> null. (An engine
  that refuses an aggregation inside an aggregation raises on every call instead.)
\<close>

type_synonym manifest_binding = "node \<times> node option \<times> node option"

definition optional_modules :: "graph \<Rightarrow> node \<Rightarrow> node option list" where
  "optional_modules g mission =
     (let ms = concat (map (\<lambda>e. filter (\<lambda>n. label n = ''UGV_Module'' \<and> nid n = src e) (nodes g))
                        (filter (\<lambda>e. rel_type e = ''PART_OF_MISSION'' \<and> dst e = nid mission)
                           (edges g)))
      in if ms = [] then [None] else map Some ms)"

definition optional_constraints :: "graph \<Rightarrow> node option \<Rightarrow> node option list" where
  "optional_constraints g m =
     (case m of
        None \<Rightarrow> [None]
      | Some n \<Rightarrow>
          (let cs = concat (map (\<lambda>e. filter (\<lambda>c. label c = ''Constraint'' \<and> nid c = dst e)
                                      (nodes g))
                             (filter (\<lambda>e. rel_type e = ''CONSTRAINED_BY'' \<and> src e = nid n)
                                (edges g)))
           in if cs = [] then [None] else map Some cs))"

definition manifest_bindings :: "graph \<Rightarrow> string \<Rightarrow> manifest_binding list" where
  "manifest_bindings g mission_id =
     concat (map (\<lambda>mission. concat (map (\<lambda>m. map (\<lambda>c. (mission, m, c))
                                                (optional_constraints g m))
                                     (optional_modules g mission)))
                 (match_by g ''Mission_Profile'' ''mission_id'' mission_id))"

definition opt_prop :: "node option \<Rightarrow> string \<Rightarrow> val" where
  "opt_prop n k = (case n of None \<Rightarrow> Null | Some x \<Rightarrow> node_prop x k)"

record module_entry =
  entry_module_id :: val
  entry_type :: val
  entry_mass_kg :: val
  entry_power_w :: val
  entry_constraints :: val

record manifest_row =
  mrow_mission_name :: val
  mrow_mission_type :: val
  mrow_duration_hours :: val
  mrow_modules :: "module_entry list"

definition mission_key :: "manifest_binding \<Rightarrow> val \<times> val \<times> val" where
  "mission_key r =
     (node_prop (fst r) ''mission_name'', node_prop (fst r) ''mission_type'',
      node_prop (fst r) ''duration_hours'')"

definition module_entry_of :: "manifest_binding \<Rightarrow> module_entry" where
  "module_entry_of r =
     \<lparr>entry_module_id = opt_prop (fst (snd r)) ''module_id'',
      entry_type = opt_prop (fst (snd r)) ''module_type'',
      entry_mass_kg = opt_prop (fst (snd r)) ''mass_kg'',
      entry_power_w = opt_prop (fst (snd r)) ''power_draw_w'',
      entry_constraints = Null\<rparr>"

definition manifest_group :: "manifest_binding list \<Rightarrow> val \<times> val \<times> val \<Rightarrow> manifest_row" where
  "manifest_group rows k =
     \<lparr>mrow_mission_name = fst k,
      mrow_mission_type = fst (snd k),
      mrow_duration_hours = snd (snd k),
      mrow_modules = map module_entry_of (filter (\<lambda>r. mission_key r = k) rows)\<rparr>"

definition manifest_query :: "graph \<Rightarrow> string \<Rightarrow> manifest_row list" where
  "manifest_query g mission_id =
     (let rows = manifest_bindings g mission_id
      in map (manifest_group rows) (first_keys (map mission_key rows)))"

text \<open>Python truthiness of a value, and \<^verbatim>\<open>sum\<close> over a list of values.\<close>

fun truthy :: "val \<Rightarrow> bool" where
  "truthy Null = False"
| "truthy (Str s) = (s \<noteq> [])"
| "truthy (Num x) = (x \<noteq> 0)"
| "truthy (VBool b) = b"
| "truthy (VList xs) = (xs \<noteq> [])"
| "truthy (VMap kvs) = (kvs \<noteq> [])"

fun py_sum :: "val list \<Rightarrow> error + real" where
  "py_sum [] = Inr 0"
| "py_sum (Num x # vs) = (case py_sum vs of Inl e \<Rightarrow> Inl e | Inr s \<Rightarrow> Inr (x + s))"
| "py_sum (VBool b # vs) =
     (case py_sum vs of Inl e \<Rightarrow> Inl e | Inr s \<Rightarrow> Inr ((if b then 1 else 0) + s))"
| "py_sum (_ # vs) = Inl PyTypeError"

record manifest =
  mf_mission_name :: val
  mf_mission_type :: val
  mf_duration_hours :: val
  mf_total_mass_kg :: real
  mf_total_power_w :: real
  mf_total_power_kw :: real
  mf_num_modules :: nat
  mf_modules :: "module_entry list"

datatype manifest_result = Status string | Manifest manifest

definition get_mission_manifest :: "graph \<Rightarrow> string \<Rightarrow> error + manifest_result" where
  "get_mission_manifest g mission_id =
     (case manifest_query g mission_id of
        [] \<Rightarrow> Inr (Status ''not_found'')
      | row # _ \<Rightarrow>
          (case py_sum (filter truthy (map entry_mass_kg (mrow_modules row))) of
             Inl e \<Rightarrow> Inl e
           | Inr total_mass \<Rightarrow>
               (case py_sum (filter truthy (map entry_power_w (mrow_modules row))) of
                  Inl e \<Rightarrow> Inl e
                | Inr total_power \<Rightarrow>
                    Inr (Manifest
                      \<lparr>mf_mission_name = mrow_mission_name row,
                       mf_mission_type = mrow_mission_type row,
                       mf_duration_hours = mrow_duration_hours row,
                       mf_total_mass_kg = total_mass,
                       mf_total_power_w = total_power,
                       mf_total_power_kw = total_power / 1000,
                       mf_num_modules = length (mrow_modules row),
                       mf_modules = mrow_modules row\<rparr>))))"

section \<open>Notions used in the statements\<close>

text \<open>A property the program writes from a float field is a number, or absent.\<close>

definition number_or_null :: "val \<Rightarrow> bool" where
  "number_or_null v = (case v of Null \<Rightarrow> True | Num x \<Rightarrow> True | _ \<Rightarrow> False)"

definition as_number :: "val \<Rightarrow> real" where
  "as_number v = (case v of Num x \<Rightarrow> x | _ \<Rightarrow> 0)"






text \<open>The edges of one type from one node to another.\<close>

definition typed_edges :: "graph \<Rightarrow> nat \<Rightarrow> nat \<Rightarrow> string \<Rightarrow> edge list" where
  "typed_edges g a b t = filter (\<lambda>e. src e = a \<and> dst e = b \<and> rel_type e = t) (edges g)"

section \<open>Example graphs\<close>

text \<open>
  The scenario of two modules drawing 120 W and 600 W that serve one mission \<open>MX\<close>,
  built with the program's own operations.
\<close>

definition demo_physical :: PhysicalProperties where
  "demo_physical = \<lparr>mass = 5 / 2, volume = 1, cg_offset = (0, 0, 0), material = ''Al'',
                     surface_treatment = None\<rparr>"

definition demo_electrical :: "real \<Rightarrow> ElectricalInterface" where
  "demo_electrical p = \<lparr>power_rail = ''24VDC'', max_current_a = 5, power_draw_w = p,
                         data_protocol = ''CAN-FD'', telemetry_rate_hz = 10,
                         latency_requirement_ms = 100\<rparr>"

definition demo_modules :: graph where
  "demo_modules =
     fst (create_module
            (fst (create_module empty_graph ''M1'' ''Sensing_Module'' demo_physical None
                    (Some (demo_electrical 120)) None []))
            ''M2'' ''Manipulation_Module'' demo_physical None (Some (demo_electrical 600)) None [])"

definition demo_mission :: graph where
  "demo_mission = fst (create_mission_profile demo_modules ''MX'' ''Mission X'' ''eod'' 2 [])"

definition demo_assigned :: graph where
  "demo_assigned =
     fst (add_module_to_mission (fst (add_module_to_mission demo_mission ''M1'' ''MX''))
            ''M2'' ''MX'')"

text \<open>
  The mission after \<open>M1\<close> and \<open>M2\<close> were marked compatible and also conflicting; a graph
  in which two constraint nodes carry the same business identifier; and a mechanical
  interface record.
\<close>

definition demo_contradictory :: graph where
  "demo_contradictory =
     fst (mark_conflict (fst (mark_compatible demo_assigned ''M1'' ''M2'')) ''M1'' ''M2''
            ''overlapping envelopes'')"


definition demo_mechanical :: MechanicalInterface where
  "demo_mechanical =
     \<lparr>connector_class = ''ISO_UGV_Mount_v1'',
      static_force_limits = [(''Fx_max'', 1500), (''Fy_max'', 800), (''Fz_max'', 2000)],
      static_moment_limits = [(''Mx_max'', 150), (''My_max'', 200), (''Mz_max'', 100)],
      dynamic_acceleration_g = 2, shock_g = 10, deflection_limit_mm = 3 / 2,
      mounting_stiffness_min = 10, natural_freq_min = 80, allowed_rotation_deg = 1 / 2\<rparr>"

section \<open>Basic facts about the engine primitives\<close>

lemma first_keys_Nil_iff: "first_keys xs = [] \<longleftrightarrow> xs = []"
  by (cases xs) simp_all

lemma first_keys_constant:
  "xs \<noteq> [] \<Longrightarrow> \<forall>x\<in>set xs. x = k \<Longrightarrow> first_keys xs = [k]"
proof (induction xs)
  case Nil
  then show ?case by simp
next
  case (Cons x xs)
  show ?case
  proof (cases "xs = []")
    case True
    with Cons.prems show ?thesis by simp
  next
    case False
    with Cons have "first_keys xs = [k]" by simp
    with Cons.prems show ?thesis by simp
  qed
qed

lemma cy_sum_value:
  "list_all number_or_null vs \<Longrightarrow> cy_sum vs = Inr (sum_list (map as_number vs))"
  by (induction vs rule: cy_sum.induct) (auto simp: number_or_null_def as_number_def)

lemma all_rows_Inr:
  "(\<And>x. x \<in> set xs \<Longrightarrow> \<exists>r. f x = Inr r)
     \<Longrightarrow> \<exists>rs. all_rows (map f xs) = Inr rs \<and> length rs = length xs"
proof (induction xs)
  case Nil
  then show ?case by simp
next
  case (Cons x xs)
  then obtain r where r: "f x = Inr r" by auto
  from Cons obtain rs where "all_rows (map f xs) = Inr rs" "length rs = length xs" by auto
  with r show ?case by simp
qed

lemma map_of_stored:
  "map_of ps k = Some v \<Longrightarrow> v \<noteq> Null \<Longrightarrow> map_of (stored ps) k = Some v"
  by (induction ps) (auto simp: stored_def)

lemma map_of_dict_update_other:
  "k \<notin> fst ` set kvs \<Longrightarrow> map_of (dict_update d kvs) k = map_of d k"
  unfolding dict_update_def
  by (induction kvs arbitrary: d) (auto simp: update_conv')




lemma create_node_ok:
  "all_storable ps \<Longrightarrow>
   create_node g l ps =
     (g\<lparr>nodes := nodes g @ [\<lparr>nid = fresh_id g, label = l, props = stored ps\<rparr>]\<rparr>,
      Inr (Some (fresh_id g)))"
  by (simp add: create_node_def cy_create_node_def Let_def)

lemma create_node_refused:
  "\<not> all_storable ps \<Longrightarrow> create_node g l ps = (g, Inl CypherTypeError)"
  by (simp add: create_node_def cy_create_node_def)

lemma match_path_target:
  "(a, b) \<in> set (match_path g la t lb k v) \<Longrightarrow> b \<in> set (match_by g lb k v)"
  by (auto simp: match_path_def)

lemma match_path_no_target:
  "match_by g lb k v = [] \<Longrightarrow> match_path g la t lb k v = []"
  by (simp add: match_path_def)

section \<open>Power-budget validation: the report and the empty result\<close>

lemma power_group_ok:
  assumes "list_all (\<lambda>(m, mission). number_or_null (node_prop m ''power_draw_w'')) rows"
  shows "\<exists>r. power_group rows k = Inr r"
proof -
  let ?grp = "filter (\<lambda>(m, mission). node_prop mission ''mission_name'' = k) rows"
  have "list_all number_or_null (map (\<lambda>(m, mission). node_prop m ''power_draw_w'') ?grp)"
    using assms by (auto simp: list_all_iff)
  then obtain s where "cy_sum (map (\<lambda>(m, mission). node_prop m ''power_draw_w'') ?grp) = Inr s"
    using cy_sum_value by blast
  then show ?thesis by (simp add: power_group_def Let_def)
qed

lemma power_budget_query_rows:
  assumes "mission_members g mid \<noteq> []"
    and "list_all (\<lambda>(m, mission). number_or_null (node_prop m ''power_draw_w''))
           (mission_members g mid)"
  shows "\<exists>row rest. power_budget_query g mid = Inr (row # rest)"
proof -
  let ?rows = "mission_members g mid"
  let ?keys = "first_keys (map (\<lambda>(m, mission). node_prop mission ''mission_name'') ?rows)"
  have ne: "?keys \<noteq> []" using assms(1) by (simp add: first_keys_Nil_iff)
  obtain rs where rs: "all_rows (map (power_group ?rows) ?keys) = Inr rs"
      "length rs = length ?keys"
    using all_rows_Inr [of ?keys "power_group ?rows"] power_group_ok [OF assms(2)] by blast
  from ne rs(2) obtain row rest where "rs = row # rest" by (cases rs) auto
  with rs(1) show ?thesis by (simp add: power_budget_query_def)
qed

lemma single_mission_query:
  assumes one: "match_by g ''Mission_Profile'' ''mission_id'' mid = [mi]"
    and ne: "mission_members g mid \<noteq> []"
    and num: "list_all (\<lambda>(m, mission). number_or_null (node_prop m ''power_draw_w''))
                (mission_members g mid)"
  shows "power_budget_query g mid =
           Inr [\<lparr>row_mission_name = node_prop mi ''mission_name'',
                 row_total_power_w =
                   sum_list (map (\<lambda>m. as_number (node_prop m ''power_draw_w''))
                               (mission_modules g mid)),
                 row_num_modules = length (mission_modules g mid),
                 row_module_ids =
                   cy_collect (map (\<lambda>m. node_prop m ''module_id'') (mission_modules g mid))\<rparr>]"
proof -
  let ?rows = "mission_members g mid"
  have tgt: "\<forall>r\<in>set ?rows. snd r = mi"
    using one match_path_target [of _ _ g "''UGV_Module''" "''PART_OF_MISSION''"
        "''Mission_Profile''" "''mission_id''" mid]
    by (auto simp: mission_members_def)
  then have keys: "first_keys (map (\<lambda>(m, mission). node_prop mission ''mission_name'') ?rows)
                     = [node_prop mi ''mission_name'']"
    using ne by (intro first_keys_constant) auto
  have grp: "filter (\<lambda>(m, mission). node_prop mission ''mission_name''
                                      = node_prop mi ''mission_name'') ?rows = ?rows"
    using tgt by (auto simp: filter_id_conv)
  have nums: "list_all number_or_null (map (\<lambda>(m, mission). node_prop m ''power_draw_w'') ?rows)"
    using num by (auto simp: list_all_iff)
  have maps: "map (\<lambda>(m, mission). f m) ?rows = map f (mission_modules g mid)"
    for f :: "node \<Rightarrow> val"
    by (simp add: mission_modules_def case_prod_unfold comp_def)
  have maps': "map (as_number \<circ> (\<lambda>(m, mission). f m)) ?rows
                 = map (\<lambda>m. as_number (f m)) (mission_modules g mid)"
    for f :: "node \<Rightarrow> val"
    by (simp add: mission_modules_def case_prod_unfold comp_def)
  have sum: "cy_sum (map (\<lambda>(m, mission). node_prop m ''power_draw_w'') ?rows)
               = Inr (sum_list (map (\<lambda>m. as_number (node_prop m ''power_draw_w''))
                                  (mission_modules g mid)))"
    using cy_sum_value [OF nums] by (simp add: maps')
  have len: "length ?rows = length (mission_modules g mid)"
    by (simp add: mission_modules_def)
  have "power_group ?rows (node_prop mi ''mission_name'') =
           Inr \<lparr>row_mission_name = node_prop mi ''mission_name'',
                 row_total_power_w =
                   sum_list (map (\<lambda>m. as_number (node_prop m ''power_draw_w''))
                               (mission_modules g mid)),
                 row_num_modules = length (mission_modules g mid),
                 row_module_ids =
                   cy_collect (map (\<lambda>m. node_prop m ''module_id'') (mission_modules g mid))\<rparr>"
    unfolding power_group_def Let_def grp sum by (simp add: maps len)
  then show ?thesis
    unfolding power_budget_query_def Let_def keys by simp
qed

lemma no_members_invalid:
  assumes "mission_members g mid = []"
  shows "validate_mission_power_budget g mid budget
           = Inr (Status_Reason ''invalid'' ''No modules found for mission'')"
proof -
  from assms have "power_budget_query g mid = Inr []"
    by (simp add: power_budget_query_def)
  then show ?thesis by (simp add: validate_mission_power_budget_def)
qed

text \<open>
  Claim C1. For a mission with at least one linked module (whose stored power draws are
  numbers or absent) and every budget, \<^verbatim>\<open>validate_mission_power_budget\<close> returns a report
  in which \<open>total_power_kw\<close> is \<open>total_power_w / 1000\<close>, \<open>margin_kw\<close> is the budget minus
  \<open>total_power_kw\<close>, and \<open>within_budget\<close> is \<open>total_power_kw \<le> budget_kw\<close>, so that it is
  true when the two are equal. When the mission identifier names one mission node, the
  total is the sum of the power draws of the linked modules.
\<close>

theorem power_budget_report:
  assumes "mission_modules g mid \<noteq> []"
    and "list_all (\<lambda>m. number_or_null (node_prop m ''power_draw_w'')) (mission_modules g mid)"
  shows "\<exists>r. validate_mission_power_budget g mid budget = Inr (Power_Report r)
            \<and> total_power_kw r = total_power_w r / 1000
            \<and> budget_kw r = budget
            \<and> margin_kw r = budget - total_power_kw r
            \<and> within_budget r = (total_power_kw r \<le> budget)
            \<and> (total_power_kw r = budget \<longrightarrow> within_budget r)
            \<and> ((\<exists>mi. match_by g ''Mission_Profile'' ''mission_id'' mid = [mi]) \<longrightarrow>
                 total_power_w r = sum_list (map (\<lambda>m. as_number (node_prop m ''power_draw_w''))
                                               (mission_modules g mid))
                 \<and> num_modules r = length (mission_modules g mid))"
proof -
  have ne: "mission_members g mid \<noteq> []"
    using assms(1) by (auto simp: mission_modules_def)
  have num: "list_all (\<lambda>(m, mission). number_or_null (node_prop m ''power_draw_w''))
               (mission_members g mid)"
    using assms(2) by (auto simp: mission_modules_def list_all_iff)
  obtain row rest where q: "power_budget_query g mid = Inr (row # rest)"
    using power_budget_query_rows [OF ne num] by blast
  have single: "row_total_power_w row
                  = sum_list (map (\<lambda>m. as_number (node_prop m ''power_draw_w''))
                                (mission_modules g mid))
                \<and> row_num_modules row = length (mission_modules g mid)"
    if "match_by g ''Mission_Profile'' ''mission_id'' mid = [mi]" for mi
    using single_mission_query [OF that ne num] q by auto
  show ?thesis
    using q single
    by (auto simp: validate_mission_power_budget_def Let_def or_zero_def)
qed

theorem power_budget_report_witness:
  "mission_modules demo_assigned ''MX'' \<noteq> []
   \<and> list_all (\<lambda>m. number_or_null (node_prop m ''power_draw_w''))
        (mission_modules demo_assigned ''MX'')
   \<and> (\<exists>r. validate_mission_power_budget demo_assigned ''MX'' (18 / 25) = Inr (Power_Report r)
          \<and> total_power_kw r = total_power_w r / 1000
          \<and> margin_kw r = 18 / 25 - total_power_kw r
          \<and> within_budget r = (total_power_kw r \<le> 18 / 25))
   \<and> validate_mission_power_budget demo_assigned ''MX'' (18 / 25)
       = Inr (Power_Report
            \<lparr>mission_name = Str ''Mission X'', total_power_w = 720, total_power_kw = 18 / 25,
             budget_kw = 18 / 25, num_modules = 2, within_budget = True, margin_kw = 0,
             module_ids = [Str ''M1'', Str ''M2'']\<rparr>)"
proof -
  have h1: "mission_modules demo_assigned ''MX'' \<noteq> []" by code_simp
  have h2: "list_all (\<lambda>m. number_or_null (node_prop m ''power_draw_w''))
              (mission_modules demo_assigned ''MX'')" by code_simp
  have v: "validate_mission_power_budget demo_assigned ''MX'' (18 / 25)
       = Inr (Power_Report
            \<lparr>mission_name = Str ''Mission X'', total_power_w = 720, total_power_kw = 18 / 25,
             budget_kw = 18 / 25, num_modules = 2, within_budget = True, margin_kw = 0,
             module_ids = [Str ''M1'', Str ''M2'']\<rparr>)" by code_simp
  have "\<exists>r. validate_mission_power_budget demo_assigned ''MX'' (18 / 25) = Inr (Power_Report r)
          \<and> total_power_kw r = total_power_w r / 1000
          \<and> margin_kw r = 18 / 25 - total_power_kw r
          \<and> within_budget r = (total_power_kw r \<le> 18 / 25)"
    using power_budget_report [OF h1 h2, of "18 / 25"] by blast
  with h1 h2 v show ?thesis by (intro conjI)
qed

text \<open>
  Claim C6. For a mission with no linked module, \<^verbatim>\<open>validate_mission_power_budget\<close> returns
  the explicit result with status \<open>invalid\<close> and reason \<open>No modules found for mission\<close>,
  not a report.
\<close>

theorem power_budget_no_modules:
  assumes "mission_modules g mid = []"
  shows "validate_mission_power_budget g mid budget
           = Inr (Status_Reason ''invalid'' ''No modules found for mission'')"
proof -
  have "mission_members g mid = []"
    using assms by (simp add: mission_modules_def)
  then show ?thesis by (rule no_members_invalid)
qed

theorem power_budget_no_modules_witness:
  "mission_modules demo_mission ''MX'' = []
   \<and> match_by demo_mission ''Mission_Profile'' ''mission_id'' ''MX'' \<noteq> []
   \<and> validate_mission_power_budget demo_mission ''MX'' (7 / 2)
       = Inr (Status_Reason ''invalid'' ''No modules found for mission'')"
proof -
  have h: "mission_modules demo_mission ''MX'' = []" by code_simp
  have e: "match_by demo_mission ''Mission_Profile'' ''mission_id'' ''MX'' \<noteq> []" by code_simp
  show ?thesis
    using h e power_budget_no_modules [OF h, of "7 / 2"] by blast
qed

text \<open>
  Claim C9. For a mission identifier that names no mission node, the result of
  \<^verbatim>\<open>validate_mission_power_budget\<close> is the same \<open>invalid\<close> record as for an existing mission
  that has no linked module: the two cases cannot be told apart.
\<close>

theorem power_budget_unknown_mission:
  assumes "match_by g ''Mission_Profile'' ''mission_id'' mid = []"
    and "match_by g' ''Mission_Profile'' ''mission_id'' mid' \<noteq> []"
    and "mission_modules g' mid' = []"
  shows "validate_mission_power_budget g mid budget
           = Inr (Status_Reason ''invalid'' ''No modules found for mission'')
         \<and> validate_mission_power_budget g mid budget
           = validate_mission_power_budget g' mid' budget'"
proof -
  have "mission_members g mid = []"
    using assms(1) by (simp add: mission_members_def match_path_no_target)
  moreover have "mission_members g' mid' = []"
    using assms(3) by (simp add: mission_modules_def)
  ultimately show ?thesis by (simp add: no_members_invalid)
qed

theorem power_budget_unknown_mission_witness:
  "match_by demo_mission ''Mission_Profile'' ''mission_id'' ''M9'' = []
   \<and> match_by demo_mission ''Mission_Profile'' ''mission_id'' ''MX'' \<noteq> []
   \<and> mission_modules demo_mission ''MX'' = []
   \<and> validate_mission_power_budget demo_mission ''M9'' 1
       = Inr (Status_Reason ''invalid'' ''No modules found for mission'')
   \<and> validate_mission_power_budget demo_mission ''M9'' 1
       = validate_mission_power_budget demo_mission ''MX'' 2"
proof -
  have h1: "match_by demo_mission ''Mission_Profile'' ''mission_id'' ''M9'' = []" by code_simp
  have h2: "match_by demo_mission ''Mission_Profile'' ''mission_id'' ''MX'' \<noteq> []" by code_simp
  have h3: "mission_modules demo_mission ''MX'' = []" by code_simp
  show ?thesis
    using h1 h2 h3 power_budget_unknown_mission [OF h1 h2 h3, of 1 2] by blast
qed

section \<open>What the engine stores\<close>

lemma all_storable_update:
  "storable v \<Longrightarrow> all_storable d \<Longrightarrow> all_storable (AList.update k v d)"
  by (induction d) (auto simp: all_storable_def)

lemma all_storable_dict_update:
  "all_storable kvs \<Longrightarrow> all_storable d \<Longrightarrow> all_storable (dict_update d kvs)"
  unfolding dict_update_def
  by (induction kvs arbitrary: d) (auto simp: all_storable_def all_storable_update [unfolded all_storable_def])

lemma all_storable_prefixed: "all_storable (prefixed p d) = all_storable d"
  by (induction d) (auto simp: all_storable_def prefixed_def)

lemma all_storable_electrical: "all_storable (asdict_electrical e)"
  by (simp add: all_storable_def asdict_electrical_def)

lemma all_storable_thermal: "all_storable (asdict_thermal t)"
  by (simp add: all_storable_def asdict_thermal_def)

lemma interface_props_storable:
  "all_storable (interface_props iid ity None elec therm)"
proof -
  let ?ps0 = "[(''interface_id'', Str iid), (''interface_type'', Str ity),
               (''created_timestamp'', Str ''datetime()'')]"
  let ?ps2 = "case elec of None \<Rightarrow> ?ps0
              | Some e \<Rightarrow> dict_update ?ps0 (prefixed ''elec_'' (asdict_electrical e))"
  let ?ps3 = "case therm of None \<Rightarrow> ?ps2
              | Some t \<Rightarrow> dict_update ?ps2 (prefixed ''therm_'' (asdict_thermal t))"
  have s0: "all_storable ?ps0" by (simp add: all_storable_def)
  have s2: "all_storable ?ps2"
    by (cases elec)
       (simp_all add: s0 all_storable_dict_update all_storable_prefixed all_storable_electrical)
  have s3: "all_storable ?ps3"
    by (cases therm)
       (simp_all add: s2 all_storable_dict_update all_storable_prefixed all_storable_thermal)
  have "interface_props iid ity None elec therm = ?ps3"
    by (simp add: interface_props_def Let_def)
  with s3 show ?thesis by simp
qed

lemma not_all_storable:
  "map_of ps k = Some v \<Longrightarrow> \<not> storable v \<Longrightarrow> \<not> all_storable ps"
  by (auto simp: all_storable_def list_all_iff dest: map_of_SomeD)

lemma map_of_dict_update:
  "map_of (dict_update d kvs) k
     = (case map_of (rev kvs) k of Some v \<Rightarrow> Some v | None \<Rightarrow> map_of d k)"
  unfolding dict_update_def
  by (induction kvs arbitrary: d) (auto simp: update_conv' split: option.splits)

lemma interface_props_force_limits:
  "map_of (interface_props iid ity (Some m) elec therm) ''mech_static_force_limits''
     = Some (float_dict (static_force_limits m))"
  by (cases elec; cases therm)
     (simp_all add: interface_props_def Let_def map_of_dict_update_other map_of_dict_update
        prefixed_def asdict_mechanical_def asdict_electrical_def asdict_thermal_def)

lemma interface_props_refused:
  "\<not> all_storable (interface_props iid ity (Some m) elec therm)"
  by (rule not_all_storable [OF interface_props_force_limits]) (simp add: float_dict_def)

lemma module_props_storable:
  "all_storable (module_props module_id module_type physical elec description)"
proof -
  let ?ps = "[(''module_id'', Str module_id),
              (''module_type'', Str module_type),
              (''mass_kg'', Num (mass physical)),
              (''volume_m3'', Num (volume physical)),
              (''cg_offset_x'', Num (fst (cg_offset physical))),
              (''cg_offset_y'', Num (fst (snd (cg_offset physical)))),
              (''cg_offset_z'', Num (snd (snd (cg_offset physical)))),
              (''material'', Str (material physical)),
              (''surface_treatment'', Str (or_standard (surface_treatment physical))),
              (''status'', Str ''active''),
              (''description'', Str description)]"
  have s: "all_storable ?ps" by (simp add: all_storable_def)
  show ?thesis
  proof (cases elec)
    case None
    with s show ?thesis by (simp add: module_props_def Let_def)
  next
    case (Some e)
    have "all_storable (AList.update ''power_rail'' (Str (power_rail e))
                          (AList.update ''power_draw_w'' (Num (power_draw_w e)) ?ps))"
      by (intro all_storable_update s) simp_all
    with Some show ?thesis by (simp only: module_props_def Let_def option.case)
  qed
qed

section \<open>Interface nodes\<close>

lemma interface_props_timestamp:
  "map_of (interface_props iid ity mech elec therm) ''created_timestamp''
     = Some (Str ''datetime()'')"
  by (cases mech; cases elec; cases therm)
     (simp_all add: interface_props_def Let_def map_of_dict_update_other prefixed_def
        asdict_mechanical_def asdict_electrical_def asdict_thermal_def)



lemma create_interface_spec_ok:
  "create_interface_spec g iid ity None elec therm =
     (g\<lparr>nodes := nodes g @ [\<lparr>nid = fresh_id g, label = ''Interface_Spec'',
                               props = stored (interface_props iid ity None elec therm)\<rparr>]\<rparr>,
      Inr (Some (fresh_id g)))"
  by (simp add: create_interface_spec_def create_node_ok interface_props_storable)

lemma create_interface_spec_refused:
  "create_interface_spec g iid ity (Some m) elec therm = (g, Inl CypherTypeError)"
  by (simp add: create_interface_spec_def create_node_refused interface_props_refused)

text \<open>
  Claim C10. The node that a call of \<^verbatim>\<open>create_interface_spec\<close> creates carries the string
  \<open>datetime()\<close> itself as its \<open>created_timestamp\<close>: the text is bound as a value and stored,
  whatever the other arguments are. A call creates its node exactly when no mechanical
  record is given; with one the engine refuses the map-valued properties and no node is
  created.
\<close>

theorem interface_timestamp_literal:
  "(mech = None \<longrightarrow>
      (\<exists>n. create_interface_spec g iid ity mech elec therm
              = (g\<lparr>nodes := nodes g @ [n]\<rparr>, Inr (Some (nid n)))
           \<and> label n = ''Interface_Spec''
           \<and> node_prop n ''created_timestamp'' = Str ''datetime()''))
   \<and> (mech \<noteq> None \<longrightarrow>
        create_interface_spec g iid ity mech elec therm = (g, Inl CypherTypeError))"
proof (intro conjI impI)
  assume "mech = None"
  then show "\<exists>n. create_interface_spec g iid ity mech elec therm
              = (g\<lparr>nodes := nodes g @ [n]\<rparr>, Inr (Some (nid n)))
           \<and> label n = ''Interface_Spec''
           \<and> node_prop n ''created_timestamp'' = Str ''datetime()''"
    by (intro exI [of _ "\<lparr>nid = fresh_id g, label = ''Interface_Spec'',
                           props = stored (interface_props iid ity None elec therm)\<rparr>"])
       (simp add: create_interface_spec_ok node_prop_def
          map_of_stored [OF interface_props_timestamp])
next
  assume "mech \<noteq> None"
  then obtain m where "mech = Some m" by auto
  then show "create_interface_spec g iid ity mech elec therm = (g, Inl CypherTypeError)"
    by (simp add: create_interface_spec_refused)
qed

theorem interface_timestamp_literal_witness:
  "(\<exists>n. create_interface_spec empty_graph ''M1_electrical'' ''electrical'' None
            (Some (demo_electrical 120)) None
          = (empty_graph\<lparr>nodes := nodes empty_graph @ [n]\<rparr>, Inr (Some (nid n)))
        \<and> label n = ''Interface_Spec''
        \<and> node_prop n ''created_timestamp'' = Str ''datetime()'')
   \<and> create_interface_spec empty_graph ''M1_mechanical'' ''mechanical'' (Some demo_mechanical)
        None None = (empty_graph, Inl CypherTypeError)"
  using interface_timestamp_literal [of None empty_graph "''M1_electrical''" "''electrical''"
      "Some (demo_electrical 120)" None]
    interface_timestamp_literal [of "Some demo_mechanical" empty_graph "''M1_mechanical''"
      "''mechanical''" None None]
  by simp

section \<open>Module creation\<close>



lemma attach_interface_refused:
  "attach_interface g node_id module_id kind (Some m) el th = (g, Inl CypherTypeError)"
  by (simp add: attach_interface_def create_interface_spec_refused)





lemma create_module_mechanical:
  "create_module g module_id module_type physical (Some m) elec therm description =
     (g\<lparr>nodes := nodes g @ [\<lparr>nid = fresh_id g, label = ''UGV_Module'',
                               props = stored (module_props module_id module_type physical
                                                 elec description)\<rparr>]\<rparr>,
      Inl CypherTypeError)"
  by (simp add: create_module_def create_node_ok module_props_storable
      attach_interface_refused)










text \<open>
  Claim C7 says that every call of \<^verbatim>\<open>create_module\<close> creates one \<open>Interface_Spec\<close> node for
  each declared interface kind. For a record that declares a mechanical interface the
  code does not: the two limit dictionaries of the mechanical record are bound as
  properties, the engine refuses them, and the call ends with that exception after the
  module node was written. No interface node and no \<open>HAS_INTERFACE\<close> edge exists
  afterwards, also none for an electrical or thermal interface declared on the same
  record. Lemma \<open>module_interfaces_without_mechanical\<close> shows what the claim says for the
  records without a mechanical interface.
\<close>

theorem mechanical_interface_refused:
  "create_module g module_id module_type physical (Some m) elec therm description =
     (g\<lparr>nodes := nodes g @ [\<lparr>nid = fresh_id g, label = ''UGV_Module'',
                               props = stored (module_props module_id module_type physical
                                                 elec description)\<rparr>]\<rparr>,
      Inl CypherTypeError)"
  by (rule create_module_mechanical)

section \<open>Node creation without validation\<close>




section \<open>Relationship operations\<close>











section \<open>Pairwise compatibility\<close>

text \<open>
  Claim C3 says that \<^verbatim>\<open>get_mission_compatibility\<close> returns \<open>N (N - 1) / 2\<close> pair records
  for a mission of \<open>N\<close> modules. The code returns no record for any mission: the engine
  rejects the statement, whose \<^verbatim>\<open>WHERE\<close> stands directly after \<^verbatim>\<open>UNWIND\<close>, and every call
  ends with that exception.
\<close>

theorem compatibility_raises:
  "get_mission_compatibility g mission_id = Inl CypherSyntaxError"
  by (simp add: get_mission_compatibility_def compatibility_statement_def)

text \<open>
  Claim C5 at the mission \<open>MX\<close> of \<open>M1\<close> and \<open>M2\<close>, after \<open>M1\<close> was marked compatible with
  \<open>M2\<close> and also conflicting with it: one edge of each kind leads from the module of lower
  internal identifier to the other, and the call raises where the claim says that the
  pair is reported once as \<open>CONFLICT\<close> and that nothing is raised. The defect is the one
  of claim C3.
\<close>

theorem contradictory_pair_raises:
  "map nid (mission_modules demo_contradictory ''MX'') = [0, 2]
   \<and> length (typed_edges demo_contradictory 0 2 ''CONFLICTS_WITH'') = 1
   \<and> length (typed_edges demo_contradictory 0 2 ''COMPATIBLE_WITH'') = 1
   \<and> get_mission_compatibility demo_contradictory ''MX'' = Inl CypherSyntaxError"
  by code_simp

section \<open>Mission manifest of a mission without modules\<close>

lemma unknown_mission_manifest:
  "match_by g ''Mission_Profile'' ''mission_id'' mid = []
     \<Longrightarrow> get_mission_manifest g mid = Inr (Status ''not_found'')"
  by (simp add: get_mission_manifest_def manifest_query_def manifest_bindings_def)

lemma empty_mission_entry:
  assumes "match_by g ''Mission_Profile'' ''mission_id'' mid = [mi]"
    and "optional_modules g mi = [None]"
  shows "\<exists>m. get_mission_manifest g mid = Inr (Manifest m)
           \<and> mf_num_modules m = 1
           \<and> mf_modules m = [\<lparr>entry_module_id = Null, entry_type = Null, entry_mass_kg = Null,
                                 entry_power_w = Null, entry_constraints = Null\<rparr>]
           \<and> mf_total_mass_kg m = 0 \<and> mf_total_power_kw m = 0"
proof -
  have b: "manifest_bindings g mid = [(mi, None, None)]"
    by (simp add: manifest_bindings_def assms optional_constraints_def)
  show ?thesis
    by (simp add: get_mission_manifest_def manifest_query_def b manifest_group_def Let_def
        module_entry_of_def opt_prop_def)
qed

text \<open>
  Claim C2 at a mission that exists and has no linked module. The optional match keeps the
  mission row with a null module; the map built from it is not null, so it is collected:
  the manifest lists one module entry whose fields are all null and reports
  \<open>num_modules = 1\<close>, where the claim says \<open>0\<close>. The totals are \<open>0\<close> as the claim says,
  and an unknown mission identifier gives \<open>not_found\<close> (lemma \<open>unknown_mission_manifest\<close>).
  Lemma \<open>empty_mission_entry\<close> shows the same for every graph in which the identifier
  names one mission node without linked modules.
\<close>

theorem empty_mission_manifest:
  "mission_modules demo_mission ''MX'' = []
   \<and> get_mission_manifest demo_mission ''MX''
       = Inr (Manifest
            \<lparr>mf_mission_name = Str ''Mission X'', mf_mission_type = Str ''eod'',
             mf_duration_hours = Num 2, mf_total_mass_kg = 0, mf_total_power_w = 0,
             mf_total_power_kw = 0, mf_num_modules = 1,
             mf_modules = [\<lparr>entry_module_id = Null, entry_type = Null, entry_mass_kg = Null,
                             entry_power_w = Null, entry_constraints = Null\<rparr>]\<rparr>)"
  by code_simp

end
